theory Spec2Isabelle
  imports Main "HOL-Library.Word"
begin

section \<open>Python values\<close>

text \<open>
  The program is one Python module, \<^verbatim>\<open>app.py\<close>. It creates a Syqlorix application object
  \<^verbatim>\<open>doc\<close>, registers a development proxy rule and two route handlers on it, and defines the
  two handlers: \<^verbatim>\<open>main_page\<close>, which returns a literal document tree, and
  \<^verbatim>\<open>pagasa_proxy\<close>, which fetches the PAGASA alert feed with \<^verbatim>\<open>urllib\<close> and relays it.

  A Python \<^verbatim>\<open>str\<close> is a sequence of Unicode code points and a \<^verbatim>\<open>bytes\<close> object a sequence
  of octets. String literals of the source are written with \<open>str_lit\<close>; every literal of the
  module outside the document tree is ASCII.
\<close>

type_synonym byte = "8 word"

type_synonym py_str = "nat list"

definition str_lit :: "string \<Rightarrow> py_str" where
  "str_lit s = map of_char s"

section \<open>Decoding and encoding UTF-8\<close>

text \<open>
  \<^verbatim>\<open>bytes.decode('utf-8')\<close> with the default error handler \<^verbatim>\<open>'strict'\<close> accepts exactly the
  well-formed byte sequences of the Unicode standard: no overlong forms (lead bytes
  \<^verbatim>\<open>C0\<close>, \<^verbatim>\<open>C1\<close>, and the restricted second byte after \<^verbatim>\<open>E0\<close> and \<^verbatim>\<open>F0\<close>), no surrogates
  (second byte after \<^verbatim>\<open>ED\<close>), nothing above \<^verbatim>\<open>U+10FFFF\<close> (second byte after \<^verbatim>\<open>F4\<close>, lead
  bytes above \<^verbatim>\<open>F4\<close>). On anything else it raises \<^verbatim>\<open>UnicodeDecodeError\<close>, which is the
  value \<open>None\<close> here.
\<close>

definition in_range :: "nat \<Rightarrow> nat \<Rightarrow> byte \<Rightarrow> bool" where
  "in_range lo hi b = (lo \<le> unat b \<and> unat b \<le> hi)"

definition is_cont :: "byte \<Rightarrow> bool" where
  "is_cont b = in_range 0x80 0xBF b"

definition second_lo :: "nat \<Rightarrow> nat" where
  "second_lo n0 = (if n0 = 0xE0 then 0xA0 else if n0 = 0xF0 then 0x90 else 0x80)"

definition second_hi :: "nat \<Rightarrow> nat" where
  "second_hi n0 = (if n0 = 0xED then 0x9F else if n0 = 0xF4 then 0x8F else 0xBF)"

text \<open>One code point from the front of the input, with the bytes that remain.\<close>

definition utf8_next :: "byte list \<Rightarrow> (nat \<times> byte list) option" where
  "utf8_next bs =
    (case bs of
       [] \<Rightarrow> None
     | b0 # r0 \<Rightarrow>
        if unat b0 < 0x80 then Some (unat b0, r0)
        else if 0xC2 \<le> unat b0 \<and> unat b0 \<le> 0xDF then
          (case r0 of
             b1 # r \<Rightarrow>
               if is_cont b1
               then Some ((unat b0 - 0xC0) * 64 + (unat b1 - 0x80), r)
               else None
           | _ \<Rightarrow> None)
        else if 0xE0 \<le> unat b0 \<and> unat b0 \<le> 0xEF then
          (case r0 of
             b1 # b2 # r \<Rightarrow>
               if in_range (second_lo (unat b0)) (second_hi (unat b0)) b1 \<and> is_cont b2
               then Some ((unat b0 - 0xE0) * 4096 + (unat b1 - 0x80) * 64 + (unat b2 - 0x80), r)
               else None
           | _ \<Rightarrow> None)
        else if 0xF0 \<le> unat b0 \<and> unat b0 \<le> 0xF4 then
          (case r0 of
             b1 # b2 # b3 # r \<Rightarrow>
               if in_range (second_lo (unat b0)) (second_hi (unat b0)) b1
                  \<and> is_cont b2 \<and> is_cont b3
               then Some ((unat b0 - 0xF0) * 262144 + (unat b1 - 0x80) * 4096
                          + (unat b2 - 0x80) * 64 + (unat b3 - 0x80), r)
               else None
           | _ \<Rightarrow> None)
        else None)"

function utf8_decode :: "byte list \<Rightarrow> py_str option" where
  "utf8_decode bs =
     (if bs = [] then Some []
      else case utf8_next bs of
             None \<Rightarrow> None
           | Some (c, r) \<Rightarrow> map_option ((#) c) (utf8_decode r))"
  by pat_completeness auto
termination
  by (relation "measure length") (auto simp: utf8_next_def split: list.splits if_splits)

declare utf8_decode.simps [simp del]

text \<open>
  \<^verbatim>\<open>str.encode('utf-8')\<close>: the bytes of a string on the wire. It raises
  \<^verbatim>\<open>UnicodeEncodeError\<close> on a surrogate code point (\<open>None\<close>). The handlers do not call it;
  it is what "the body equals the upstream body byte for byte" is measured with, the
  relayed body being a \<^verbatim>\<open>str\<close> and the upstream body \<^verbatim>\<open>bytes\<close>.
\<close>

definition utf8_encode_cp :: "nat \<Rightarrow> byte list option" where
  "utf8_encode_cp c =
     (if c < 0x80 then Some [of_nat c]
      else if c < 0x800 then Some [of_nat (0xC0 + c div 64), of_nat (0x80 + c mod 64)]
      else if c < 0x10000 then
        (if 0xD800 \<le> c \<and> c < 0xE000 then None
         else Some [of_nat (0xE0 + c div 4096), of_nat (0x80 + c div 64 mod 64),
                    of_nat (0x80 + c mod 64)])
      else if c < 0x110000 then
        Some [of_nat (0xF0 + c div 262144), of_nat (0x80 + c div 4096 mod 64),
              of_nat (0x80 + c div 64 mod 64), of_nat (0x80 + c mod 64)]
      else None)"

fun utf8_encode :: "py_str \<Rightarrow> byte list option" where
  "utf8_encode [] = Some []"
| "utf8_encode (c # cs) =
     (case utf8_encode_cp c of
        None \<Rightarrow> None
      | Some bs \<Rightarrow> map_option ((@) bs) (utf8_encode cs))"

section \<open>The framework's objects\<close>

text \<open>
  \<^verbatim>\<open>from syqlorix import *\<close> brings in the tag constructors (\<^verbatim>\<open>head\<close>, \<^verbatim>\<open>div\<close>, \<^verbatim>\<open>meta\<close>, ...),
  \<^verbatim>\<open>Comment\<close> and the class \<^verbatim>\<open>Syqlorix\<close>. A call \<^verbatim>\<open>div(c1, c2, class_="x")\<close> is the node
  \<open>Element ''div'' [c1, c2] [(''class_'', AttrStr x)]\<close>: the tag is the name of the constructor
  called, the positional arguments are the children in order (a bare string is a text child),
  the keyword arguments are the attributes in order, under the keyword as the source
  writes it.
\<close>

datatype attr_value = AttrStr py_str | AttrBool bool

datatype node =
    Element string "node list" "(string \<times> attr_value) list"
  | Text py_str
  | Comment py_str

text \<open>The two functions that \<^verbatim>\<open>@doc.route\<close> decorates.\<close>

datatype handler = Main_page | Pagasa_proxy

text \<open>
  An instance of \<^verbatim>\<open>Syqlorix\<close> is both a document (its children) and an application (what has
  been registered on it). \<^verbatim>\<open>Syqlorix(c1, ..., cn)\<close> has the children given and nothing
  registered.
\<close>

record syqlorix =
  children :: "node list"
  routes :: "(py_str \<times> handler) list"
  proxies :: "(py_str \<times> py_str) list"

definition Syqlorix :: "node list \<Rightarrow> syqlorix" where
  "Syqlorix cs = \<lparr>children = cs, routes = [], proxies = []\<rparr>"

text \<open>
  Modelled from the spec: the methods \<^verbatim>\<open>route\<close> and \<^verbatim>\<open>proxy\<close> of the class \<^verbatim>\<open>Syqlorix\<close>, which
  belong to the framework and are not among the sources. The spec describes a route table
  entry as a pair of a path pattern and a handler reference, registered statically;
  \<open>route\<close> appends such a pair. The source's comment on \<^verbatim>\<open>doc.proxy\<close> says that it maps a
  path to a target URL; \<open>proxy\<close> records the pair, apart from the route table.
\<close>

definition route :: "py_str \<Rightarrow> handler \<Rightarrow> syqlorix \<Rightarrow> syqlorix" where
  "route path h app = app\<lparr>routes := routes app @ [(path, h)]\<rparr>"

definition proxy :: "py_str \<Rightarrow> py_str \<Rightarrow> syqlorix \<Rightarrow> syqlorix" where
  "proxy path target app = app\<lparr>proxies := proxies app @ [(path, target)]\<rparr>"

text \<open>What a handler may return: a document, or a tuple of a body, a status and headers.\<close>

datatype py_value =
    PyStr py_str
  | PyInt int
  | PyDict "(py_str \<times> py_str) list"
  | PyTuple "py_value list"
  | PyDoc syqlorix

text \<open>The request object a handler is called with.\<close>

record request =
  request_method :: py_str
  request_path :: py_str
  query_params :: "(py_str \<times> py_str) list"
  request_headers :: "(py_str \<times> py_str) list"
  request_body :: "byte list"

section \<open>Exceptions, urllib and the process state\<close>

text \<open>
  The failures that \<^verbatim>\<open>urlopen\<close>, \<^verbatim>\<open>read\<close>, \<^verbatim>\<open>close\<close> and \<^verbatim>\<open>decode\<close> raise. All of them are
  instances of \<^verbatim>\<open>Exception\<close>, which is what \<^verbatim>\<open>except Exception\<close> catches: \<^verbatim>\<open>urlopen\<close> raises
  \<^verbatim>\<open>URLError\<close> when no connection is made, \<^verbatim>\<open>HTTPError\<close> (with the status code) on a status
  outside 200..299 that it cannot follow, and a timeout or another \<^verbatim>\<open>OSError\<close> from the
  socket; \<^verbatim>\<open>read\<close> raises \<^verbatim>\<open>IncompleteRead\<close> or an \<^verbatim>\<open>OSError\<close>. \<^verbatim>\<open>print\<close> raises too: an
  \<^verbatim>\<open>OSError\<close> (\<^verbatim>\<open>BrokenPipeError\<close>, no space left) when standard output cannot be written to,
  \<^verbatim>\<open>UnicodeEncodeError\<close> when its encoding has no form for the text. \<open>OtherException\<close> stands
  for any other instance of \<^verbatim>\<open>Exception\<close>.
\<close>

datatype py_exception =
    URLError py_str
  | HTTPError nat
  | TimeoutError
  | OSError py_str
  | IncompleteRead
  | UnicodeDecodeError
  | UnicodeEncodeError
  | OtherException py_str

text \<open>\<^verbatim>\<open>urllib.request.Request\<close>: the URL, the request body (none here) and the headers.\<close>

record urllib_request =
  full_url :: py_str
  data :: "byte list option"
  headers :: "(py_str \<times> py_str) list"

definition Request :: "py_str \<Rightarrow> urllib_request" where
  "Request url = \<lparr>full_url = url, data = None, headers = []\<rparr>"

text \<open>
  \<^verbatim>\<open>add_header\<close> stores the value under the header's name, replacing an earlier value of the
  same name. (urllib normalises the capitalisation of the name it stores; header names are
  case-insensitive, and the name is kept here as the source writes it.)
\<close>

definition add_header :: "py_str \<Rightarrow> py_str \<Rightarrow> urllib_request \<Rightarrow> urllib_request" where
  "add_header key val req =
     req\<lparr>headers := filter (\<lambda>kv. fst kv \<noteq> key) (headers req) @ [(key, val)]\<rparr>"

definition get_method :: "urllib_request \<Rightarrow> py_str" where
  "get_method req = (if data req = None then str_lit ''GET'' else str_lit ''POST'')"

text \<open>
  The response object that \<^verbatim>\<open>urlopen\<close> returns, as far as the handler uses it: what
  \<^verbatim>\<open>read()\<close> gives (the whole body, or an exception) and whether \<^verbatim>\<open>close()\<close>, which the
  \<^verbatim>\<open>with\<close> statement calls on the way out, raises.
\<close>

record http_response =
  read_result :: "py_exception + byte list"
  close_result :: "py_exception option"

text \<open>
  The world outside the process: what one call of \<^verbatim>\<open>urlopen\<close> on a request ends in, an
  exception or a response object.
\<close>

type_synonym network = "urllib_request \<Rightarrow> py_exception + http_response"

text \<open>A line printed with \<^verbatim>\<open>print(f"<prefix>{e}")\<close>: the literal prefix and the exception formatted.\<close>

datatype printed = FString py_str py_exception

text \<open>
  Standard output as the process finds it: what writing one line to it ends in, \<open>None\<close> when
  the line is written and the exception otherwise. It may depend on the line, as an
  encoding error does.
\<close>

type_synonym console = "printed \<Rightarrow> py_exception option"

text \<open>
  The state of the process: the module global \<^verbatim>\<open>doc\<close>, the outbound requests issued so far,
  oldest first, and what has been printed to standard output.
\<close>

record py_state =
  doc :: syqlorix
  sent :: "urllib_request list"
  stdout :: "printed list"

definition urlopen ::
  "network \<Rightarrow> urllib_request \<Rightarrow> py_state \<Rightarrow> (py_exception + http_response) \<times> py_state" where
  "urlopen net req s = (net req, s\<lparr>sent := sent s @ [req]\<rparr>)"

text \<open>
  \<^verbatim>\<open>print\<close>: the line is added to what has been printed, or the exception of the write is
  raised and nothing is added.
\<close>

definition print :: "console \<Rightarrow> printed \<Rightarrow> py_state \<Rightarrow> (py_exception + unit) \<times> py_state" where
  "print con line s =
     (case con line of
        Some e \<Rightarrow> (Inl e, s)
      | None \<Rightarrow> (Inr (), s\<lparr>stdout := stdout s @ [line]\<rparr>))"

section \<open>The page\<close>

text \<open>
  \<^verbatim>\<open>main_page\<close> returns \<^verbatim>\<open>Syqlorix(head(...), body(...))\<close>, one expression of 311 constructor
  calls on string and boolean constants. The two arguments follow, as the source has them.
\<close>

definition main_page_head :: node where
  "main_page_head =
    Element ''head''
     [
      Element ''meta'' [] [(''charset'', AttrStr (str_lit ''UTF-8''))],
      Element ''meta'' []
       [(''name'', AttrStr (str_lit ''viewport'')),
        (''content'', AttrStr (str_lit ''width=device-width, initial-scale=1.0''))],
      Element ''meta'' []
       [(''name'', AttrStr (str_lit ''description'')),
        (''content'', AttrStr (str_lit ''Real-time PAGASA weather alerts and flood advisories for the Philippines. Stay informed about typhoons, floods, and severe weather conditions.''))],
      Element ''meta'' []
       [(''name'', AttrStr (str_lit ''keywords'')),
        (''content'', AttrStr (str_lit ''PAGASA, weather alerts, Philippines, typhoon, flood advisory, disaster preparedness''))],
      Element ''meta'' []
       [(''name'', AttrStr (str_lit ''author'')),
        (''content'', AttrStr (str_lit ''Bayanihan Weather Alert System''))],
      Comment (str_lit ''Open Graph Meta Tags''),
      Element ''meta'' []
       [(''property'', AttrStr (str_lit ''og:title'')),
        (''content'', AttrStr (str_lit ''Bayanihan Weather Alert Dashboard''))],
      Element ''meta'' []
       [(''property'', AttrStr (str_lit ''og:description'')),
        (''content'', AttrStr (str_lit ''Real-time PAGASA weather alerts and flood advisories for the Philippines''))],
      Element ''meta'' []
       [(''property'', AttrStr (str_lit ''og:type'')),
        (''content'', AttrStr (str_lit ''website''))],
      Element ''meta'' []
       [(''property'', AttrStr (str_lit ''og:image'')),
        (''content'', AttrStr (str_lit ''https://via.placeholder.com/1200x630/1e40af/ffffff?text=Bayanihan+Weather+Alert''))],
      Comment (str_lit ''Twitter Card Meta Tags''),
      Element ''meta'' []
       [(''name'', AttrStr (str_lit ''twitter:card'')),
        (''content'', AttrStr (str_lit ''summary_large_image''))],
      Element ''meta'' []
       [(''name'', AttrStr (str_lit ''twitter:title'')),
        (''content'', AttrStr (str_lit ''Bayanihan Weather Alert Dashboard''))],
      Element ''meta'' []
       [(''name'', AttrStr (str_lit ''twitter:description'')),
        (''content'', AttrStr (str_lit ''Real-time PAGASA weather alerts and flood advisories for the Philippines''))],
      Element ''meta'' []
       [(''name'', AttrStr (str_lit ''twitter:image'')),
        (''content'', AttrStr (str_lit ''https://via.placeholder.com/1200x630/1e40af/ffffff?text=Bayanihan+Weather+Alert''))],
      Element ''title''
       [
        Text (str_lit ''Bayanihan Weather Alert Dashboard | Real-time PAGASA Alerts'')
       ]
       [],
      Comment (str_lit ''Favicon''),
      Element ''link'' []
       [(''rel'', AttrStr (str_lit ''icon'')),
        (''type'', AttrStr (str_lit ''image/svg+xml'')),
        (''href'', AttrStr (str_lit ''data:image/svg+xml,<svg xmlns='' @ [0x27] @ str_lit ''http://www.w3.org/2000/svg'' @ [0x27] @ str_lit '' viewBox='' @ [0x27] @ str_lit ''0 0 100 100'' @ [0x27] @ str_lit ''><text y='' @ [0x27] @ str_lit ''.9em'' @ [0x27] @ str_lit '' font-size='' @ [0x27] @ str_lit ''90'' @ [0x27] @ str_lit ''>'' @ [0x1F326, 0xFE0F] @ str_lit ''</text></svg>''))],
      Comment (str_lit ''Fonts''),
      Element ''link'' []
       [(''rel'', AttrStr (str_lit ''preconnect'')),
        (''href'', AttrStr (str_lit ''https://fonts.googleapis.com''))],
      Element ''link'' []
       [(''rel'', AttrStr (str_lit ''preconnect'')),
        (''href'', AttrStr (str_lit ''https://fonts.gstatic.com'')),
        (''crossorigin'', AttrBool True)],
      Element ''link'' []
       [(''href'', AttrStr (str_lit ''https://fonts.googleapis.com/css2?family=Inter:wght@400;500;600;700&display=swap'')),
        (''rel'', AttrStr (str_lit ''stylesheet''))],
      Comment (str_lit ''Icons''),
      Element ''link'' []
       [(''rel'', AttrStr (str_lit ''stylesheet'')),
        (''href'', AttrStr (str_lit ''https://cdnjs.cloudflare.com/ajax/libs/font-awesome/6.5.0/css/all.min.css''))],
      Comment (str_lit ''Styles''),
      Element ''link'' []
       [(''rel'', AttrStr (str_lit ''stylesheet'')),
        (''href'', AttrStr (str_lit ''styles.css''))],
      Comment (str_lit ''LeafletJS Map CSS''),
      Element ''link'' []
       [(''rel'', AttrStr (str_lit ''stylesheet'')),
        (''href'', AttrStr (str_lit ''https://unpkg.com/leaflet@1.9.4/dist/leaflet.css'')),
        (''integrity'', AttrStr (str_lit ''sha256-p4NxAoJBhIIN+hmNHrzRCf9tD/miZyoHS5obTRR9BMY='')),
        (''crossorigin'', AttrBool True)],
      Comment (str_lit ''Progressive Web App Manifest''),
      Element ''link'' []
       [(''rel'', AttrStr (str_lit ''manifest'')),
        (''href'', AttrStr (str_lit ''manifest.json''))],
      Element ''meta'' []
       [(''name'', AttrStr (str_lit ''theme-color'')),
        (''content'', AttrStr (str_lit ''#1e40af''))]
     ]
     []"

definition main_page_body :: node where
  "main_page_body =
    Element ''body''
     [
      Comment (str_lit ''Skip to Content Link for Accessibility''),
      Element ''a''
       [
        Text (str_lit ''Skip to main content'')
       ]
       [(''href'', AttrStr (str_lit ''#main-content'')),
        (''class_'', AttrStr (str_lit ''skip-link''))],
      Comment (str_lit ''Loading Screen''),
      Element ''div''
       [
        Element ''div''
         [
          Element ''div''
           [
            Text [0x1F326, 0xFE0F]
           ]
           [(''class_'', AttrStr (str_lit ''loading-logo''))],
          Element ''h1''
           [
            Text (str_lit ''Bayanihan Weather Alert'')
           ]
           [],
          Element ''div'' [] [(''class_'', AttrStr (str_lit ''loading-spinner''))],
          Element ''p''
           [
            Text (str_lit ''Loading weather alerts...'')
           ]
           []
         ]
         [(''class_'', AttrStr (str_lit ''loading-content''))]
       ]
       [(''id'', AttrStr (str_lit ''loading-screen'')),
        (''class_'', AttrStr (str_lit ''loading-screen''))],
      Comment (str_lit ''Header Section''),
      Element ''header''
       [
        Element ''div''
         [
          Element ''div''
           [
            Element ''div''
             [
              Element ''div''
               [
                Text [0x1F326, 0xFE0F]
               ]
               [(''class_'', AttrStr (str_lit ''logo-img''))],
              Element ''div''
               [
                Element ''h1''
                 [
                  Text (str_lit ''Bayanihan Weather Alert'')
                 ]
                 [(''class_'', AttrStr (str_lit ''site-title''))],
                Element ''p''
                 [
                  Text (str_lit ''Real-time PAGASA Dashboard'')
                 ]
                 [(''class_'', AttrStr (str_lit ''site-subtitle''))]
               ]
               [(''class_'', AttrStr (str_lit ''logo-text''))]
             ]
             [(''class_'', AttrStr (str_lit ''logo-section''))],
            Element ''div''
             [
              Element ''div''
               [
                Element ''span'' []
                 [(''class_'', AttrStr (str_lit ''status-dot'')),
                  (''id'', AttrStr (str_lit ''connection-status''))],
                Element ''span''
                 [
                  Text (str_lit ''Connecting...'')
                 ]
                 [(''class_'', AttrStr (str_lit ''status-text'')),
                  (''id'', AttrStr (str_lit ''status-text''))]
               ]
               [(''class_'', AttrStr (str_lit ''status-indicator''))],
              Element ''div''
               [
                Element ''span''
                 [
                  Text (str_lit ''Last Update:'')
                 ]
                 [(''class_'', AttrStr (str_lit ''update-label''))],
                Element ''time''
                 [
                  Text (str_lit ''--:--'')
                 ]
                 [(''id'', AttrStr (str_lit ''last-update-time'')),
                  (''datetime'', AttrBool True)]
               ]
               [(''class_'', AttrStr (str_lit ''last-update''))]
             ]
             [(''class_'', AttrStr (str_lit ''header-status''))],
            Element ''div''
             [
              Element ''label''
               [
                Element ''input_'' []
                 [(''type'', AttrStr (str_lit ''checkbox'')),
                  (''id'', AttrStr (str_lit ''dark-mode-toggle''))],
                Element ''span'' [] [(''class_'', AttrStr (str_lit ''slider round''))]
               ]
               [(''class_'', AttrStr (str_lit ''theme-switch'')),
                (''for_'', AttrStr (str_lit ''dark-mode-toggle''))]
             ]
             [(''class_'', AttrStr (str_lit ''theme-switch-wrapper''))],
            Element ''nav''
             [
              Element ''button''
               [
                Element ''span'' [] [(''class_'', AttrStr (str_lit ''hamburger''))],
                Element ''span''
                 [
                  Text (str_lit ''Toggle navigation menu'')
                 ]
                 [(''class_'', AttrStr (str_lit ''sr-only''))]
               ]
               [(''class_'', AttrStr (str_lit ''nav-toggle'')),
                (''aria_expanded'', AttrStr (str_lit ''false'')),
                (''aria_controls'', AttrStr (str_lit ''nav-menu'')),
                (''id'', AttrStr (str_lit ''nav-toggle''))],
              Element ''ul''
               [
                Element ''li''
                 [
                  Element ''a''
                   [
                    Text (str_lit ''Dashboard'')
                   ]
                   [(''href'', AttrStr (str_lit ''#dashboard'')),
                    (''class_'', AttrStr (str_lit ''nav-link active''))]
                 ]
                 [],
                Element ''li''
                 [
                  Element ''a''
                   [
                    Text (str_lit ''Active Alerts'')
                   ]
                   [(''href'', AttrStr (str_lit ''#alerts'')),
                    (''class_'', AttrStr (str_lit ''nav-link''))]
                 ]
                 [],
                Element ''li''
                 [
                  Element ''a''
                   [
                    Text (str_lit ''Map View'')
                   ]
                   [(''href'', AttrStr (str_lit ''#map'')),
                    (''class_'', AttrStr (str_lit ''nav-link''))]
                 ]
                 [],
                Element ''li''
                 [
                  Element ''a''
                   [
                    Text (str_lit ''Analytics'')
                   ]
                   [(''href'', AttrStr (str_lit ''#analytics'')),
                    (''class_'', AttrStr (str_lit ''nav-link''))]
                 ]
                 []
               ]
               [(''class_'', AttrStr (str_lit ''nav-menu'')),
                (''id'', AttrStr (str_lit ''nav-menu''))]
             ]
             [(''class_'', AttrStr (str_lit ''main-nav'')),
              (''role'', AttrStr (str_lit ''navigation'')),
              (''aria_label'', AttrStr (str_lit ''Main navigation''))]
           ]
           [(''class_'', AttrStr (str_lit ''header-content''))]
         ]
         [(''class_'', AttrStr (str_lit ''container''))]
       ]
       [(''class_'', AttrStr (str_lit ''header'')),
        (''role'', AttrStr (str_lit ''banner''))],
      Comment (str_lit ''Main Content''),
      Element ''main''
       [
        Comment (str_lit ''Alert Banner for Critical Alerts''),
        Element ''div''
         [
          Element ''div''
           [
            Element ''div''
             [
              Element ''div''
               [
                Text [0x26A0, 0xFE0F]
               ]
               [(''class_'', AttrStr (str_lit ''banner-icon''))],
              Element ''div''
               [
                Element ''strong''
                 [
                  Text (str_lit ''Critical Weather Alert:'')
                 ]
                 [],
                Element ''span''
                 [
                  Text (str_lit ''Severe weather conditions detected in your area.'')
                 ]
                 [(''id'', AttrStr (str_lit ''critical-message''))]
               ]
               [(''class_'', AttrStr (str_lit ''banner-text''))],
              Element ''button''
               [
                Text [0xD7]
               ]
               [(''class_'', AttrStr (str_lit ''banner-close'')),
                (''aria_label'', AttrStr (str_lit ''Close alert banner'')),
                (''id'', AttrStr (str_lit ''banner-close''))]
             ]
             [(''class_'', AttrStr (str_lit ''banner-content''))]
           ]
           [(''class_'', AttrStr (str_lit ''container''))]
         ]
         [(''class_'', AttrStr (str_lit ''alert-banner'')),
          (''id'', AttrStr (str_lit ''critical-banner'')),
          (''role'', AttrStr (str_lit ''alert'')),
          (''aria_live'', AttrStr (str_lit ''assertive'')),
          (''style'', AttrStr (str_lit ''display: none;''))],
        Comment (str_lit ''Dashboard Section''),
        Element ''section''
         [
          Element ''div''
           [
            Element ''div''
             [
              Element ''h2''
               [
                Text (str_lit ''Weather Alert Dashboard'')
               ]
               [(''class_'', AttrStr (str_lit ''section-title''))],
              Element ''p''
               [
                Text (str_lit ''Real-time monitoring of PAGASA weather alerts and flood advisories across the Philippines'')
               ]
               [(''class_'', AttrStr (str_lit ''section-description''))]
             ]
             [(''class_'', AttrStr (str_lit ''section-header''))],
            Comment (str_lit ''Quick Stats''),
            Element ''div''
             [
              Comment (str_lit ''ADD THIS NEW CARD''),
              Element ''div''
               [
                Element ''div''
                 [
                  Element ''i'' [] [(''class_'', AttrStr (str_lit ''fas fa-bell''))]
                 ]
                 [(''class_'', AttrStr (str_lit ''stat-icon total''))],
                Element ''div''
                 [
                  Element ''div''
                   [
                    Text (str_lit ''0'')
                   ]
                   [(''class_'', AttrStr (str_lit ''stat-number'')),
                    (''id'', AttrStr (str_lit ''total-count''))],
                  Element ''div''
                   [
                    Text (str_lit ''Total Active Alerts'')
                   ]
                   [(''class_'', AttrStr (str_lit ''stat-label''))]
                 ]
                 [(''class_'', AttrStr (str_lit ''stat-content''))]
               ]
               [(''class_'', AttrStr (str_lit ''stat-card''))],
              Element ''div''
               [
                Element ''div''
                 [
                  Element ''i'' [] [(''class_'', AttrStr (str_lit ''fas fa-exclamation-triangle''))]
                 ]
                 [(''class_'', AttrStr (str_lit ''stat-icon severe''))],
                Element ''div''
                 [
                  Element ''div''
                   [
                    Text (str_lit ''0'')
                   ]
                   [(''class_'', AttrStr (str_lit ''stat-number'')),
                    (''id'', AttrStr (str_lit ''severe-count''))],
                  Element ''div''
                   [
                    Text (str_lit ''Severe Alerts'')
                   ]
                   [(''class_'', AttrStr (str_lit ''stat-label''))]
                 ]
                 [(''class_'', AttrStr (str_lit ''stat-content''))]
               ]
               [(''class_'', AttrStr (str_lit ''stat-card''))],
              Element ''div''
               [
                Element ''div''
                 [
                  Element ''i'' [] [(''class_'', AttrStr (str_lit ''fas fa-exclamation-circle''))]
                 ]
                 [(''class_'', AttrStr (str_lit ''stat-icon moderate''))],
                Element ''div''
                 [
                  Element ''div''
                   [
                    Text (str_lit ''0'')
                   ]
                   [(''class_'', AttrStr (str_lit ''stat-number'')),
                    (''id'', AttrStr (str_lit ''moderate-count''))],
                  Element ''div''
                   [
                    Text (str_lit ''Moderate Alerts'')
                   ]
                   [(''class_'', AttrStr (str_lit ''stat-label''))]
                 ]
                 [(''class_'', AttrStr (str_lit ''stat-content''))]
               ]
               [(''class_'', AttrStr (str_lit ''stat-card''))],
              Element ''div''
               [
                Element ''div''
                 [
                  Element ''i'' [] [(''class_'', AttrStr (str_lit ''fas fa-info-circle''))]
                 ]
                 [(''class_'', AttrStr (str_lit ''stat-icon minor''))],
                Element ''div''
                 [
                  Element ''div''
                   [
                    Text (str_lit ''0'')
                   ]
                   [(''class_'', AttrStr (str_lit ''stat-number'')),
                    (''id'', AttrStr (str_lit ''minor-count''))],
                  Element ''div''
                   [
                    Text (str_lit ''Minor Alerts'')
                   ]
                   [(''class_'', AttrStr (str_lit ''stat-label''))]
                 ]
                 [(''class_'', AttrStr (str_lit ''stat-content''))]
               ]
               [(''class_'', AttrStr (str_lit ''stat-card''))],
              Element ''div''
               [
                Element ''div''
                 [
                  Element ''i'' [] [(''class_'', AttrStr (str_lit ''fas fa-map-marked-alt''))]
                 ]
                 [(''class_'', AttrStr (str_lit ''stat-icon regions''))],
                Element ''div''
                 [
                  Element ''div''
                   [
                    Text (str_lit ''0'')
                   ]
                   [(''class_'', AttrStr (str_lit ''stat-number'')),
                    (''id'', AttrStr (str_lit ''regions-count''))],
                  Element ''div''
                   [
                    Text (str_lit ''Affected Regions'')
                   ]
                   [(''class_'', AttrStr (str_lit ''stat-label''))]
                 ]
                 [(''class_'', AttrStr (str_lit ''stat-content''))]
               ]
               [(''class_'', AttrStr (str_lit ''stat-card''))]
             ]
             [(''class_'', AttrStr (str_lit ''stats-grid''))],
            Comment (str_lit ''Filter Controls''),
            Element ''div''
             [
              Element ''div''
               [
                Element ''label''
                 [
                  Text (str_lit ''Filter by Region:'')
                 ]
                 [(''for_'', AttrStr (str_lit ''region-filter'')),
                  (''class_'', AttrStr (str_lit ''filter-label''))],
                Element ''select''
                 [
                  Element ''option''
                   [
                    Text (str_lit ''All Regions'')
                   ]
                   [(''value'', AttrBool True)],
                  Element ''option''
                   [
                    Text (str_lit ''National Capital Region (NCR)'')
                   ]
                   [(''value'', AttrStr (str_lit ''ncr''))],
                  Element ''option''
                   [
                    Text (str_lit ''Cordillera Administrative Region (CAR)'')
                   ]
                   [(''value'', AttrStr (str_lit ''car''))],
                  Element ''option''
                   [
                    Text (str_lit ''Region 1 (Ilocos Region)'')
                   ]
                   [(''value'', AttrStr (str_lit ''region1''))],
                  Element ''option''
                   [
                    Text (str_lit ''Region 2 (Cagayan Valley)'')
                   ]
                   [(''value'', AttrStr (str_lit ''region2''))],
                  Element ''option''
                   [
                    Text (str_lit ''Region 3 (Central Luzon)'')
                   ]
                   [(''value'', AttrStr (str_lit ''region3''))],
                  Element ''option''
                   [
                    Text (str_lit ''Region 4-A (CALABARZON)'')
                   ]
                   [(''value'', AttrStr (str_lit ''region4a''))],
                  Element ''option''
                   [
                    Text (str_lit ''Region 4-B (MIMAROPA)'')
                   ]
                   [(''value'', AttrStr (str_lit ''region4b''))],
                  Element ''option''
                   [
                    Text (str_lit ''Region 5 (Bicol Region)'')
                   ]
                   [(''value'', AttrStr (str_lit ''region5''))],
                  Element ''option''
                   [
                    Text (str_lit ''Region 6 (Western Visayas)'')
                   ]
                   [(''value'', AttrStr (str_lit ''region6''))],
                  Element ''option''
                   [
                    Text (str_lit ''Region 7 (Central Visayas)'')
                   ]
                   [(''value'', AttrStr (str_lit ''region7''))],
                  Element ''option''
                   [
                    Text (str_lit ''Region 8 (Eastern Visayas)'')
                   ]
                   [(''value'', AttrStr (str_lit ''region8''))],
                  Element ''option''
                   [
                    Text (str_lit ''Region 9 (Zamboanga Peninsula)'')
                   ]
                   [(''value'', AttrStr (str_lit ''region9''))],
                  Element ''option''
                   [
                    Text (str_lit ''Region 10 (Northern Mindanao)'')
                   ]
                   [(''value'', AttrStr (str_lit ''region10''))],
                  Element ''option''
                   [
                    Text (str_lit ''Region 11 (Davao Region)'')
                   ]
                   [(''value'', AttrStr (str_lit ''region11''))],
                  Element ''option''
                   [
                    Text (str_lit ''Region 12 (SOCCSKSARGEN)'')
                   ]
                   [(''value'', AttrStr (str_lit ''region12''))],
                  Element ''option''
                   [
                    Text (str_lit ''Region 13 (Caraga)'')
                   ]
                   [(''value'', AttrStr (str_lit ''region13''))],
                  Element ''option''
                   [
                    Text (str_lit ''BARMM (Bangsamoro Autonomous Region in Muslim Mindanao)'')
                   ]
                   [(''value'', AttrStr (str_lit ''barmm''))]
                 ]
                 [(''id'', AttrStr (str_lit ''region-filter'')),
                  (''class_'', AttrStr (str_lit ''filter-select''))]
               ]
               [(''class_'', AttrStr (str_lit ''filter-group''))],
              Element ''div''
               [
                Element ''label''
                 [
                  Text (str_lit ''Filter by Severity:'')
                 ]
                 [(''for_'', AttrStr (str_lit ''severity-filter'')),
                  (''class_'', AttrStr (str_lit ''filter-label''))],
                Element ''select''
                 [
                  Element ''option''
                   [
                    Text (str_lit ''All Severities'')
                   ]
                   [(''value'', AttrBool True)],
                  Element ''option''
                   [
                    Text (str_lit ''Extreme'')
                   ]
                   [(''value'', AttrStr (str_lit ''extreme''))],
                  Element ''option''
                   [
                    Text (str_lit ''Severe'')
                   ]
                   [(''value'', AttrStr (str_lit ''severe''))],
                  Element ''option''
                   [
                    Text (str_lit ''Moderate'')
                   ]
                   [(''value'', AttrStr (str_lit ''moderate''))],
                  Element ''option''
                   [
                    Text (str_lit ''Minor'')
                   ]
                   [(''value'', AttrStr (str_lit ''minor''))]
                 ]
                 [(''id'', AttrStr (str_lit ''severity-filter'')),
                  (''class_'', AttrStr (str_lit ''filter-select''))]
               ]
               [(''class_'', AttrStr (str_lit ''filter-group''))],
              Element ''div''
               [
                Element ''label''
                 [
                  Text (str_lit ''Search Alerts:'')
                 ]
                 [(''for_'', AttrStr (str_lit ''alert-search'')),
                  (''class_'', AttrStr (str_lit ''filter-label''))],
                Element ''input_'' []
                 [(''type'', AttrStr (str_lit ''search'')),
                  (''id'', AttrStr (str_lit ''alert-search'')),
                  (''class_'', AttrStr (str_lit ''filter-input'')),
                  (''placeholder'', AttrStr (str_lit ''Search by location or alert type...''))]
               ]
               [(''class_'', AttrStr (str_lit ''filter-group''))],
              Element ''button''
               [
                Element ''i'' [] [(''class_'', AttrStr (str_lit ''fas fa-undo''))],
                Text (str_lit ''Reset Filters'')
               ]
               [(''class_'', AttrStr (str_lit ''filter-reset'')),
                (''id'', AttrStr (str_lit ''reset-filters''))]
             ]
             [(''class_'', AttrStr (str_lit ''filter-section''))]
           ]
           [(''class_'', AttrStr (str_lit ''container''))]
         ]
         [(''id'', AttrStr (str_lit ''dashboard'')),
          (''class_'', AttrStr (str_lit ''dashboard-section''))],
        Comment (str_lit ''Active Alerts Section''),
        Element ''section''
         [
          Element ''div''
           [
            Element ''div''
             [
              Element ''h2''
               [
                Text (str_lit ''Active Weather Alerts'')
               ]
               [(''class_'', AttrStr (str_lit ''section-title''))],
              Element ''div''
               [
                Element ''button''
                 [
                  Element ''i'' []
                   [(''class_'', AttrStr (str_lit ''fas fa-sync-alt refresh-icon''))],
                  Text (str_lit ''Refresh'')
                 ]
                 [(''class_'', AttrStr (str_lit ''refresh-btn'')),
                  (''id'', AttrStr (str_lit ''refresh-alerts'')),
                  (''aria_label'', AttrStr (str_lit ''Refresh alerts''))],
                Element ''div''
                 [
                  Element ''button''
                   [
                    Element ''i'' [] [(''class_'', AttrStr (str_lit ''fas fa-th''))]
                   ]
                   [(''class_'', AttrStr (str_lit ''view-btn active'')),
                    (''data_view'', AttrStr (str_lit ''grid'')),
                    (''aria_label'', AttrStr (str_lit ''Grid view''))],
                  Element ''button''
                   [
                    Element ''i'' [] [(''class_'', AttrStr (str_lit ''fas fa-list''))]
                   ]
                   [(''class_'', AttrStr (str_lit ''view-btn'')),
                    (''data_view'', AttrStr (str_lit ''list'')),
                    (''aria_label'', AttrStr (str_lit ''List view''))]
                 ]
                 [(''class_'', AttrStr (str_lit ''view-toggle''))]
               ]
               [(''class_'', AttrStr (str_lit ''section-actions''))]
             ]
             [(''class_'', AttrStr (str_lit ''section-header''))],
            Comment (str_lit ''Loading State''),
            Element ''div''
             [
              Element ''div'' [] [(''class_'', AttrStr (str_lit ''loading-spinner''))],
              Element ''p''
               [
                Text (str_lit ''Loading weather alerts...'')
               ]
               []
             ]
             [(''class_'', AttrStr (str_lit ''loading-state'')),
              (''id'', AttrStr (str_lit ''alerts-loading''))],
            Comment (str_lit ''No Alerts State''),
            Element ''div''
             [
              Element ''div''
               [
                Text [0x2600, 0xFE0F]
               ]
               [(''class_'', AttrStr (str_lit ''no-alerts-icon''))],
              Element ''h3''
               [
                Text (str_lit ''No Active Weather Alerts'')
               ]
               [],
              Element ''p''
               [
                Text (str_lit ''There are currently no active weather alerts for the selected filters. Stay safe and check back regularly for updates.'')
               ]
               []
             ]
             [(''class_'', AttrStr (str_lit ''no-alerts-state'')),
              (''id'', AttrStr (str_lit ''no-alerts'')),
              (''style'', AttrStr (str_lit ''display: none;''))],
            Comment (str_lit ''Alerts Grid''),
            Element ''div''
             [
              Comment (str_lit ''Alert cards will be dynamically inserted here'')
             ]
             [(''class_'', AttrStr (str_lit ''alerts-grid'')),
              (''id'', AttrStr (str_lit ''alerts-container''))]
           ]
           [(''class_'', AttrStr (str_lit ''container''))]
         ]
         [(''id'', AttrStr (str_lit ''alerts'')),
          (''class_'', AttrStr (str_lit ''alerts-section''))],
        Comment (str_lit ''Map Section''),
        Element ''section''
         [
          Element ''div''
           [
            Element ''div''
             [
              Element ''h2''
               [
                Text (str_lit ''Interactive Weather Map'')
               ]
               [(''class_'', AttrStr (str_lit ''section-title''))],
              Element ''p''
               [
                Text (str_lit ''Geographic visualization of active weather alerts across the Philippines'')
               ]
               [(''class_'', AttrStr (str_lit ''section-description''))]
             ]
             [(''class_'', AttrStr (str_lit ''section-header''))],
            Element ''div''
             [
              Element ''div''
               [
                Element ''div''
                 [
                  Element ''div'' [] [(''class_'', AttrStr (str_lit ''loading-spinner''))],
                  Element ''p''
                   [
                    Text (str_lit ''Loading interactive map...'')
                   ]
                   []
                 ]
                 [(''class_'', AttrStr (str_lit ''map-loading''))]
               ]
               [(''class_'', AttrStr (str_lit ''map-placeholder'')),
                (''id'', AttrStr (str_lit ''weather-map''))],
              Element ''div''
               [
                Element ''h3''
                 [
                  Text (str_lit ''Alert Severity Legend'')
                 ]
                 [(''class_'', AttrStr (str_lit ''legend-title''))],
                Element ''div''
                 [
                  Element ''div''
                   [
                    Element ''span'' [] [(''class_'', AttrStr (str_lit ''legend-color extreme''))],
                    Element ''span''
                     [
                      Text (str_lit ''Extreme'')
                     ]
                     [(''class_'', AttrStr (str_lit ''legend-label''))]
                   ]
                   [(''class_'', AttrStr (str_lit ''legend-item''))],
                  Element ''div''
                   [
                    Element ''span'' [] [(''class_'', AttrStr (str_lit ''legend-color severe''))],
                    Element ''span''
                     [
                      Text (str_lit ''Severe'')
                     ]
                     [(''class_'', AttrStr (str_lit ''legend-label''))]
                   ]
                   [(''class_'', AttrStr (str_lit ''legend-item''))],
                  Element ''div''
                   [
                    Element ''span'' [] [(''class_'', AttrStr (str_lit ''legend-color moderate''))],
                    Element ''span''
                     [
                      Text (str_lit ''Moderate'')
                     ]
                     [(''class_'', AttrStr (str_lit ''legend-label''))]
                   ]
                   [(''class_'', AttrStr (str_lit ''legend-item''))],
                  Element ''div''
                   [
                    Element ''span'' [] [(''class_'', AttrStr (str_lit ''legend-color minor''))],
                    Element ''span''
                     [
                      Text (str_lit ''Minor'')
                     ]
                     [(''class_'', AttrStr (str_lit ''legend-label''))]
                   ]
                   [(''class_'', AttrStr (str_lit ''legend-item''))]
                 ]
                 [(''class_'', AttrStr (str_lit ''legend-items''))]
               ]
               [(''class_'', AttrStr (str_lit ''map-legend''))]
             ]
             [(''class_'', AttrStr (str_lit ''map-container''))]
           ]
           [(''class_'', AttrStr (str_lit ''container''))]
         ]
         [(''id'', AttrStr (str_lit ''map'')),
          (''class_'', AttrStr (str_lit ''map-section''))],
        Comment (str_lit ''Analytics Section''),
        Element ''section''
         [
          Element ''div''
           [
            Element ''div''
             [
              Element ''h2''
               [
                Text (str_lit ''Weather Analytics'')
               ]
               [(''class_'', AttrStr (str_lit ''section-title''))],
              Element ''p''
               [
                Text (str_lit ''Statistical analysis and trends of weather alerts'')
               ]
               [(''class_'', AttrStr (str_lit ''section-description''))]
             ]
             [(''class_'', AttrStr (str_lit ''section-header''))],
            Element ''div''
             [
              Element ''div''
               [
                Element ''h3''
                 [
                  Text (str_lit ''Alert Frequency by Region'')
                 ]
                 [(''class_'', AttrStr (str_lit ''chart-title''))],
                Element ''div''
                 [
                  Element ''canvas'' []
                   [(''id'', AttrStr (str_lit ''region-canvas'')),
                    (''width'', AttrStr (str_lit ''400'')),
                    (''height'', AttrStr (str_lit ''300''))]
                 ]
                 [(''class_'', AttrStr (str_lit ''chart-placeholder'')),
                  (''id'', AttrStr (str_lit ''region-chart''))]
               ]
               [(''class_'', AttrStr (str_lit ''chart-container''))],
              Element ''div''
               [
                Element ''h3''
                 [
                  Text (str_lit ''Severity Distribution'')
                 ]
                 [(''class_'', AttrStr (str_lit ''chart-title''))],
                Element ''div''
                 [
                  Element ''canvas'' []
                   [(''id'', AttrStr (str_lit ''severity-canvas'')),
                    (''width'', AttrStr (str_lit ''400'')),
                    (''height'', AttrStr (str_lit ''300''))]
                 ]
                 [(''class_'', AttrStr (str_lit ''chart-placeholder'')),
                  (''id'', AttrStr (str_lit ''severity-chart''))]
               ]
               [(''class_'', AttrStr (str_lit ''chart-container''))],
              Element ''div''
               [
                Element ''h3''
                 [
                  Text (str_lit ''Alert Timeline (24 Hours)'')
                 ]
                 [(''class_'', AttrStr (str_lit ''chart-title''))],
                Element ''div''
                 [
                  Element ''canvas'' []
                   [(''id'', AttrStr (str_lit ''timeline-canvas'')),
                    (''width'', AttrStr (str_lit ''400'')),
                    (''height'', AttrStr (str_lit ''300''))]
                 ]
                 [(''class_'', AttrStr (str_lit ''chart-placeholder'')),
                  (''id'', AttrStr (str_lit ''timeline-chart''))]
               ]
               [(''class_'', AttrStr (str_lit ''chart-container''))],
              Element ''div''
               [
                Element ''h3''
                 [
                  Text (str_lit ''Weather Pattern Analysis'')
                 ]
                 [(''class_'', AttrStr (str_lit ''chart-title''))],
                Element ''div''
                 [
                  Element ''canvas'' []
                   [(''id'', AttrStr (str_lit ''pattern-canvas'')),
                    (''width'', AttrStr (str_lit ''400'')),
                    (''height'', AttrStr (str_lit ''300''))]
                 ]
                 [(''class_'', AttrStr (str_lit ''chart-placeholder'')),
                  (''id'', AttrStr (str_lit ''pattern-chart''))]
               ]
               [(''class_'', AttrStr (str_lit ''chart-container''))]
             ]
             [(''class_'', AttrStr (str_lit ''analytics-grid''))]
           ]
           [(''class_'', AttrStr (str_lit ''container''))]
         ]
         [(''id'', AttrStr (str_lit ''analytics'')),
          (''class_'', AttrStr (str_lit ''analytics-section''))]
       ]
       [(''id'', AttrStr (str_lit ''main-content'')),
        (''class_'', AttrStr (str_lit ''main-content'')),
        (''role'', AttrStr (str_lit ''main''))],
      Comment (str_lit ''Alert Detail Modal''),
      Element ''div''
       [
        Element ''div'' []
         [(''class_'', AttrStr (str_lit ''modal-overlay'')),
          (''id'', AttrStr (str_lit ''modal-overlay''))],
        Element ''div''
         [
          Element ''div''
           [
            Element ''h2''
             [
              Text (str_lit ''Alert Details'')
             ]
             [(''class_'', AttrStr (str_lit ''modal-title'')),
              (''id'', AttrStr (str_lit ''modal-title''))],
            Element ''button''
             [
              Element ''i'' [] [(''class_'', AttrStr (str_lit ''fas fa-times''))]
             ]
             [(''class_'', AttrStr (str_lit ''modal-close'')),
              (''id'', AttrStr (str_lit ''modal-close'')),
              (''aria_label'', AttrStr (str_lit ''Close modal''))]
           ]
           [(''class_'', AttrStr (str_lit ''modal-header''))],
          Element ''div''
           [
            Comment (str_lit ''Alert details will be dynamically inserted here'')
           ]
           [(''class_'', AttrStr (str_lit ''modal-body'')),
            (''id'', AttrStr (str_lit ''modal-body''))],
          Element ''div''
           [
            Element ''a''
             [
              Element ''i'' [] [(''class_'', AttrStr (str_lit ''fas fa-external-link-alt''))],
              Text (str_lit ''View on PAGASA'')
             ]
             [(''class_'', AttrStr (str_lit ''btn btn-secondary'')),
              (''id'', AttrStr (str_lit ''modal-pagasa-link'')),
              (''target'', AttrStr (str_lit ''_blank''))],
            Element ''button''
             [
              Text (str_lit ''Close'')
             ]
             [(''class_'', AttrStr (str_lit ''btn btn-primary'')),
              (''id'', AttrStr (str_lit ''modal-close-btn''))]
           ]
           [(''class_'', AttrStr (str_lit ''modal-footer''))]
         ]
         [(''class_'', AttrStr (str_lit ''modal-content''))]
       ]
       [(''class_'', AttrStr (str_lit ''modal'')),
        (''id'', AttrStr (str_lit ''alert-modal'')),
        (''aria_hidden'', AttrStr (str_lit ''true'')),
        (''role'', AttrStr (str_lit ''dialog'')),
        (''aria_labelledby'', AttrStr (str_lit ''modal-title''))],
      Comment (str_lit ''Footer''),
      Element ''footer''
       [
        Element ''div''
         [
          Element ''div''
           [
            Element ''div''
             [
              Element ''h3''
               [
                Text (str_lit ''Bayanihan Weather Alert'')
               ]
               [],
              Element ''p''
               [
                Text (str_lit ''Real-time weather alerts and flood advisories from PAGASA to keep Filipino communities safe and informed.'')
               ]
               [],
              Element ''div''
               [
                Element ''a''
                 [
                  Element ''i'' [] [(''class_'', AttrStr (str_lit ''fab fa-facebook''))]
                 ]
                 [(''href'', AttrStr (str_lit ''#'')),
                  (''class_'', AttrStr (str_lit ''social-link'')),
                  (''aria_label'', AttrStr (str_lit ''Facebook''))],
                Element ''a''
                 [
                  Element ''i'' [] [(''class_'', AttrStr (str_lit ''fab fa-twitter''))]
                 ]
                 [(''href'', AttrStr (str_lit ''#'')),
                  (''class_'', AttrStr (str_lit ''social-link'')),
                  (''aria_label'', AttrStr (str_lit ''Twitter''))],
                Element ''a''
                 [
                  Element ''i'' [] [(''class_'', AttrStr (str_lit ''fab fa-instagram''))]
                 ]
                 [(''href'', AttrStr (str_lit ''#'')),
                  (''class_'', AttrStr (str_lit ''social-link'')),
                  (''aria_label'', AttrStr (str_lit ''Instagram''))]
               ]
               [(''class_'', AttrStr (str_lit ''footer-social''))]
             ]
             [(''class_'', AttrStr (str_lit ''footer-section''))],
            Element ''div''
             [
              Element ''h4''
               [
                Text (str_lit ''Quick Links'')
               ]
               [],
              Element ''ul''
               [
                Element ''li''
                 [
                  Element ''a''
                   [
                    Text (str_lit ''Dashboard'')
                   ]
                   [(''href'', AttrStr (str_lit ''#dashboard''))]
                 ]
                 [],
                Element ''li''
                 [
                  Element ''a''
                   [
                    Text (str_lit ''Active Alerts'')
                   ]
                   [(''href'', AttrStr (str_lit ''#alerts''))]
                 ]
                 [],
                Element ''li''
                 [
                  Element ''a''
                   [
                    Text (str_lit ''Map View'')
                   ]
                   [(''href'', AttrStr (str_lit ''#map''))]
                 ]
                 [],
                Element ''li''
                 [
                  Element ''a''
                   [
                    Text (str_lit ''Analytics'')
                   ]
                   [(''href'', AttrStr (str_lit ''#analytics''))]
                 ]
                 []
               ]
               [(''class_'', AttrStr (str_lit ''footer-links''))]
             ]
             [(''class_'', AttrStr (str_lit ''footer-section''))],
            Element ''div''
             [
              Element ''h4''
               [
                Text (str_lit ''Resources'')
               ]
               [],
              Element ''ul''
               [
                Element ''li''
                 [
                  Element ''a''
                   [
                    Text (str_lit ''PAGASA Official'')
                   ]
                   [(''href'', AttrStr (str_lit ''https://www.pagasa.dost.gov.ph/'')),
                    (''target'', AttrStr (str_lit ''_blank''))]
                 ]
                 [],
                Element ''li''
                 [
                  Element ''a''
                   [
                    Text (str_lit ''NDRRMC'')
                   ]
                   [(''href'', AttrStr (str_lit ''https://www.ndrrmc.gov.ph/'')),
                    (''target'', AttrStr (str_lit ''_blank''))]
                 ]
                 [],
                Element ''li''
                 [
                  Element ''a''
                   [
                    Text (str_lit ''Emergency Contacts'')
                   ]
                   [(''href'', AttrStr (str_lit ''#'')),
                    (''target'', AttrStr (str_lit ''_blank''))]
                 ]
                 [],
                Element ''li''
                 [
                  Element ''a''
                   [
                    Text (str_lit ''Safety Tips'')
                   ]
                   [(''href'', AttrStr (str_lit ''#'')),
                    (''target'', AttrStr (str_lit ''_blank''))]
                 ]
                 []
               ]
               [(''class_'', AttrStr (str_lit ''footer-links''))]
             ]
             [(''class_'', AttrStr (str_lit ''footer-section''))],
            Element ''div''
             [
              Element ''h4''
               [
                Text (str_lit ''About'')
               ]
               [],
              Element ''ul''
               [
                Element ''li''
                 [
                  Element ''a''
                   [
                    Text (str_lit ''About Us'')
                   ]
                   [(''href'', AttrStr (str_lit ''#''))]
                 ]
                 [],
                Element ''li''
                 [
                  Element ''a''
                   [
                    Text (str_lit ''Privacy Policy'')
                   ]
                   [(''href'', AttrStr (str_lit ''#''))]
                 ]
                 [],
                Element ''li''
                 [
                  Element ''a''
                   [
                    Text (str_lit ''Terms of Service'')
                   ]
                   [(''href'', AttrStr (str_lit ''#''))]
                 ]
                 [],
                Element ''li''
                 [
                  Element ''a''
                   [
                    Text (str_lit ''Contact'')
                   ]
                   [(''href'', AttrStr (str_lit ''#''))]
                 ]
                 []
               ]
               [(''class_'', AttrStr (str_lit ''footer-links''))]
             ]
             [(''class_'', AttrStr (str_lit ''footer-section''))]
           ]
           [(''class_'', AttrStr (str_lit ''footer-content''))],
          Element ''div''
           [
            Element ''p''
             [
              Text ([0xA9] @ str_lit '' 2025 Bayanihan Weather Alert. Data provided by PAGASA.'')
             ]
             [],
            Element ''p''
             [
              Text (str_lit ''Built with '' @ [0x2764, 0xFE0F] @ str_lit '' for Filipino communities'')
             ]
             []
           ]
           [(''class_'', AttrStr (str_lit ''footer-bottom''))]
         ]
         [(''class_'', AttrStr (str_lit ''container''))]
       ]
       [(''class_'', AttrStr (str_lit ''footer'')),
        (''role'', AttrStr (str_lit ''contentinfo''))],
      Comment (str_lit ''LeafletJS Map Script''),
      Comment (str_lit ''Chart.js Library''),
      Comment (str_lit ''LeafletJS Map Script''),
      Comment (str_lit ''Your Application Scripts''),
      Comment (str_lit ''Back to Top Button''),
      Element ''button''
       [
        Element ''i'' [] [(''class_'', AttrStr (str_lit ''fas fa-arrow-up''))]
       ]
       [(''id'', AttrStr (str_lit ''back-to-top'')),
        (''class_'', AttrStr (str_lit ''btn btn-primary'')),
        (''title'', AttrStr (str_lit ''Go to top''))],
      Element ''script'' []
       [(''src'', AttrStr (str_lit ''https://unpkg.com/leaflet@1.9.4/dist/leaflet.js''))],
      Element ''script'' [] [(''src'', AttrStr (str_lit ''https://cdn.jsdelivr.net/npm/chart.js''))],
      Element ''script'' []
       [(''src'', AttrStr (str_lit ''https://unpkg.com/leaflet@1.9.4/dist/leaflet.js''))],
      Element ''script'' [] [(''src'', AttrStr (str_lit ''script.js''))]
     ]
     []"

definition main_page ::
  "request \<Rightarrow> py_state \<Rightarrow> (py_exception + py_value) \<times> py_state" where
  "main_page request s = (Inr (PyDoc (Syqlorix [main_page_head, main_page_body])), s)"

section \<open>The feed proxy\<close>

text \<open>
  The request object that the \<^verbatim>\<open>try\<close> block of \<^verbatim>\<open>pagasa_proxy\<close> builds and opens: the fixed
  URL and the one header added. It depends on nothing.
\<close>

definition upstream_request :: urllib_request where
  "upstream_request =
     add_header (str_lit ''User-Agent'')
       (str_lit ''Mozilla/5.0 (Windows NT 10.0; Win64; x64) AppleWebKit/537.36'')
       (Request (str_lit ''https://publicalert.pagasa.dost.gov.ph/feeds/''))"

text \<open>
  \<^verbatim>\<open>response.read().decode('utf-8')\<close>: an exception of \<^verbatim>\<open>read\<close> propagates, and bytes that are
  not UTF-8 raise \<^verbatim>\<open>UnicodeDecodeError\<close>.
\<close>

definition read_decode :: "http_response \<Rightarrow> py_exception + py_str" where
  "read_decode response =
     (case read_result response of
        Inl e \<Rightarrow> Inl e
      | Inr raw \<Rightarrow>
         (case utf8_decode raw of
            None \<Rightarrow> Inl UnicodeDecodeError
          | Some xml_data \<Rightarrow> Inr xml_data))"

text \<open>
  The body of the \<^verbatim>\<open>try\<close> statement of \<^verbatim>\<open>pagasa_proxy\<close>. \<open>Inl\<close> is an exception that leaves
  the block. The \<^verbatim>\<open>with\<close> statement closes the response whether its body raised or not, and
  an exception of \<^verbatim>\<open>close\<close> replaces the one of the body.
\<close>

definition pagasa_proxy_try :: "network \<Rightarrow> py_state \<Rightarrow> (py_exception + py_value) \<times> py_state" where
  "pagasa_proxy_try net s =
     (let url = str_lit ''https://publicalert.pagasa.dost.gov.ph/feeds/'';
          req = Request url;
          req = add_header (str_lit ''User-Agent'')
                  (str_lit ''Mozilla/5.0 (Windows NT 10.0; Win64; x64) AppleWebKit/537.36'') req;
          (opened, s') = urlopen net req s
      in case opened of
           Inl e \<Rightarrow> (Inl e, s')
         | Inr response \<Rightarrow>
            (let xml_data = read_decode response
             in case close_result response of
                  Some e \<Rightarrow> (Inl e, s')
                | None \<Rightarrow>
                   (case xml_data of
                      Inl e \<Rightarrow> (Inl e, s')
                    | Inr xml_data \<Rightarrow>
                       (Inr (PyTuple [PyStr xml_data, PyInt 200,
                                      PyDict [(str_lit ''Content-Type'',
                                               str_lit ''application/atom+xml'')]]),
                        s'))))"

text \<open>
  The handler: the \<^verbatim>\<open>try\<close> block, and the \<^verbatim>\<open>except Exception as e\<close> clause, which prints the
  exception and then returns the error tuple. The \<^verbatim>\<open>print\<close> stands in the clause unguarded:
  an exception that it raises is not caught by the \<^verbatim>\<open>try\<close> statement it belongs to, and
  leaves the handler (\<open>Inl\<close>) before the \<^verbatim>\<open>return\<close> is reached. The \<open>request\<close> argument is
  not used.
\<close>

definition pagasa_proxy ::
  "request \<Rightarrow> network \<Rightarrow> console \<Rightarrow> py_state \<Rightarrow> (py_exception + py_value) \<times> py_state" where
  "pagasa_proxy request net con s =
     (case pagasa_proxy_try net s of
        (Inr v, s') \<Rightarrow> (Inr v, s')
      | (Inl e, s') \<Rightarrow>
         (case print con (FString (str_lit ''Proxy error: '') e) s' of
            (Inl e', s'') \<Rightarrow> (Inl e', s'')
          | (Inr u, s'') \<Rightarrow>
             (Inr (PyTuple [PyDict [(str_lit ''error'',
                                     str_lit ''Failed to fetch PAGASA data'')],
                            PyInt 500]),
              s'')))"

section \<open>The module\<close>

text \<open>
  What importing the module leaves behind: \<^verbatim>\<open>doc = Syqlorix()\<close>, then the call of
  \<^verbatim>\<open>doc.proxy\<close> and the two \<^verbatim>\<open>@doc.route\<close> decorators, in the order of the source; no
  request sent and nothing printed.
\<close>

definition app_module :: py_state where
  "app_module =
     \<lparr>doc =
        route (str_lit ''/api/pagasa-proxy'') Pagasa_proxy
          (route (str_lit ''/'') Main_page
             (proxy (str_lit ''/api/pagasa-proxy'')
                (str_lit ''https://publicalert.pagasa.dost.gov.ph/feeds'')
                (Syqlorix []))),
      sent = [],
      stdout = []\<rparr>"

text \<open>Calling a registered handler on a request.\<close>

fun call_handler ::
  "handler \<Rightarrow> request \<Rightarrow> network \<Rightarrow> console \<Rightarrow> py_state
     \<Rightarrow> (py_exception + py_value) \<times> py_state" where
  "call_handler Main_page request net con s = main_page request s"
| "call_handler Pagasa_proxy request net con s = pagasa_proxy request net con s"

text \<open>
  Modelled from the spec: the part of the framework that turns what a handler returns into
  the HTTP response, which is not among the sources. The spec's router passes the handler's
  body, status code and headers through unchanged, and serves a document with status 200
  and content type \<^verbatim>\<open>text/html\<close>.
\<close>

record http_reply =
  status :: int
  reply_headers :: "(py_str \<times> py_str) list"
  reply_body :: py_value

definition respond :: "py_value \<Rightarrow> http_reply" where
  "respond v =
     (case v of
        PyTuple [b, PyInt st, PyDict hs] \<Rightarrow> \<lparr>status = st, reply_headers = hs, reply_body = b\<rparr>
      | PyTuple [b, PyInt st] \<Rightarrow> \<lparr>status = st, reply_headers = [], reply_body = b\<rparr>
      | _ \<Rightarrow> \<lparr>status = 200,
               reply_headers = [(str_lit ''Content-Type'', str_lit ''text/html'')],
               reply_body = v\<rparr>)"

section \<open>Example inputs\<close>

text \<open>A plain request to the proxy path, and one that carries a URL of the caller's.\<close>

definition plain_request :: request where
  "plain_request =
     \<lparr>request_method = str_lit ''GET'', request_path = str_lit ''/api/pagasa-proxy'', query_params = [],
      request_headers = [], request_body = []\<rparr>"

definition crafted_request :: request where
  "crafted_request =
     \<lparr>request_method = str_lit ''GET'', request_path = str_lit ''/api/pagasa-proxy'',
      query_params = [(str_lit ''url'', str_lit ''http://169.254.169.254/'')],
      request_headers = [(str_lit ''User-Agent'', str_lit ''curl/8.0'')],
      request_body = [0x41]\<rparr>"

text \<open>The upstream answers with the body \<^verbatim>\<open><feed>ok</feed>\<close>.\<close>

definition feed_ok_bytes :: "byte list" where
  "feed_ok_bytes =
     [0x3C, 0x66, 0x65, 0x65, 0x64, 0x3E, 0x6F, 0x6B, 0x3C, 0x2F, 0x66, 0x65, 0x65, 0x64, 0x3E]"

definition feed_ok_response :: http_response where
  "feed_ok_response = \<lparr>read_result = Inr feed_ok_bytes, close_result = None\<rparr>"

definition feed_ok_network :: network where
  "feed_ok_network req = Inr feed_ok_response"




definition unreachable_network :: network where
  "unreachable_network req = Inl (URLError (str_lit ''Name or service not known''))"

text \<open>
  A standard output that takes every line, and one whose reader has gone: every write
  raises \<^verbatim>\<open>BrokenPipeError\<close>, an \<^verbatim>\<open>OSError\<close>.
\<close>

definition working_console :: console where
  "working_console line = None"

definition broken_console :: console where
  "broken_console line = Some (OSError (str_lit ''[Errno 32] Broken pipe''))"

text \<open>A network that serves the feed at the fixed request and nothing anywhere else.\<close>

definition pinned_network :: network where
  "pinned_network req =
     (if req = upstream_request then Inr feed_ok_response
      else Inl (URLError (str_lit ''Connection refused'')))"

section \<open>Lemmas on the codec\<close>

lemma div_base: "r < n \<Longrightarrow> (q * n + r) div n = (q::nat)"
  by simp

lemma mod_base: "r < n \<Longrightarrow> (q * n + r) mod n = (r::nat)"
  by simp

lemma byte_of_unat: "unat (b::byte) = n \<Longrightarrow> of_nat n = b"
  by auto

lemma utf8_next_1:
  "unat b0 < 0x80 \<Longrightarrow> utf8_next (b0 # r0) = Some (unat b0, r0)"
  by (simp add: utf8_next_def)

lemma utf8_next_2:
  "0xC2 \<le> unat b0 \<Longrightarrow> unat b0 \<le> 0xDF \<Longrightarrow>
   utf8_next (b0 # r0) =
     (case r0 of
        b1 # r \<Rightarrow>
          if is_cont b1 then Some ((unat b0 - 0xC0) * 64 + (unat b1 - 0x80), r) else None
      | _ \<Rightarrow> None)"
  by (simp add: utf8_next_def)

lemma utf8_next_3:
  "0xE0 \<le> unat b0 \<Longrightarrow> unat b0 \<le> 0xEF \<Longrightarrow>
   utf8_next (b0 # r0) =
     (case r0 of
        b1 # b2 # r \<Rightarrow>
          if in_range (second_lo (unat b0)) (second_hi (unat b0)) b1 \<and> is_cont b2
          then Some ((unat b0 - 0xE0) * 4096 + (unat b1 - 0x80) * 64 + (unat b2 - 0x80), r)
          else None
      | _ \<Rightarrow> None)"
  by (simp add: utf8_next_def)

lemma utf8_next_4:
  "0xF0 \<le> unat b0 \<Longrightarrow> unat b0 \<le> 0xF4 \<Longrightarrow>
   utf8_next (b0 # r0) =
     (case r0 of
        b1 # b2 # b3 # r \<Rightarrow>
          if in_range (second_lo (unat b0)) (second_hi (unat b0)) b1
             \<and> is_cont b2 \<and> is_cont b3
          then Some ((unat b0 - 0xF0) * 262144 + (unat b1 - 0x80) * 4096
                     + (unat b2 - 0x80) * 64 + (unat b3 - 0x80), r)
          else None
      | _ \<Rightarrow> None)"
  by (simp add: utf8_next_def)

lemma utf8_next_bad:
  "0x80 \<le> unat b0 \<Longrightarrow> unat b0 < 0xC2 \<or> 0xF4 < unat b0 \<Longrightarrow> utf8_next (b0 # r0) = None"
  by (auto simp: utf8_next_def)

text \<open>Each of the four forms encodes back to the bytes it was read from.\<close>

lemma utf8_encode_cp_1:
  assumes "unat b0 < 0x80"
  shows "utf8_encode_cp (unat b0) = Some [b0]"
  using assms by (simp add: utf8_encode_cp_def)

lemma utf8_encode_cp_2:
  assumes "0xC2 \<le> unat b0" "unat b0 \<le> 0xDF" "is_cont b1"
  shows "utf8_encode_cp ((unat b0 - 0xC0) * 64 + (unat b1 - 0x80)) = Some [b0, b1]"
proof -
  define x where "x = unat b0 - 0xC0"
  define y where "y = unat b1 - 0x80"
  have x: "unat b0 = 0xC0 + x" "2 \<le> x" "x < 32"
    using assms by (simp_all add: x_def)
  have y: "unat b1 = 0x80 + y" "y < 64"
    using assms by (auto simp: y_def is_cont_def in_range_def)
  have c: "\<not> x * 64 + y < 0x80" "x * 64 + y < 0x800"
    using x y by simp_all
  have dm: "(x * 64 + y) div 64 = x" "(x * 64 + y) mod 64 = y"
    using y by simp_all
  have "of_nat (0xC0 + x) = b0" "of_nat (0x80 + y) = b1"
    using x(1) y(1) by (simp_all only: byte_of_unat)
  then show ?thesis
    unfolding x_def [symmetric] y_def [symmetric] utf8_encode_cp_def
    by (simp only: c dm if_True if_False)
qed

lemma utf8_encode_cp_3:
  assumes "0xE0 \<le> unat b0" "unat b0 \<le> 0xEF"
    and "in_range (second_lo (unat b0)) (second_hi (unat b0)) b1" "is_cont b2"
  shows "utf8_encode_cp ((unat b0 - 0xE0) * 4096 + (unat b1 - 0x80) * 64 + (unat b2 - 0x80))
         = Some [b0, b1, b2]"
proof -
  define x where "x = unat b0 - 0xE0"
  define y where "y = unat b1 - 0x80"
  define z where "z = unat b2 - 0x80"
  define c where "c = x * 4096 + y * 64 + z"
  have x: "unat b0 = 0xE0 + x" "x < 16"
    using assms(1,2) by (simp_all add: x_def)
  have y: "unat b1 = 0x80 + y" "y < 64"
    using assms(3) by (auto simp: y_def in_range_def second_lo_def second_hi_def split: if_splits)
  have z: "unat b2 = 0x80 + z" "z < 64"
    using assms(4) by (auto simp: z_def is_cont_def in_range_def)
  have lo: "x = 0 \<Longrightarrow> 32 \<le> y"
    using assms(3) x(1) y(1) by (simp add: in_range_def second_lo_def)
  have hi: "x = 13 \<Longrightarrow> y < 32"
    using assms(3) x(1) y(1) by (simp add: in_range_def second_hi_def)
  have lower: "0x800 \<le> c"
    using lo unfolding c_def by (cases "x = 0") simp_all
  have upper: "c < 0x10000"
    using x(2) y(2) z(2) unfolding c_def by simp
  have surr: "\<not> (0xD800 \<le> c \<and> c < 0xE000)"
  proof -
    consider "x < 13" | "x = 13" | "13 < x" by linarith
    then show ?thesis
      using y(2) z(2) hi unfolding c_def by cases simp_all
  qed
  have c: "\<not> c < 0x80" "\<not> c < 0x800" "c < 0x10000" "\<not> (0xD800 \<le> c \<and> c < 0xE000)"
    using lower upper surr by simp_all
  have e1: "c = (x * 64 + y) * 64 + z" and e2: "c = x * 4096 + (y * 64 + z)"
    unfolding c_def by simp_all
  have yz: "y * 64 + z < 4096"
    using y(2) z(2) by simp
  have d1: "c div 4096 = x"
    by (subst e2) (rule div_base [OF yz])
  have d2: "c div 64 = x * 64 + y"
    by (subst e1) (rule div_base [OF z(2)])
  have d3: "c mod 64 = z"
    by (subst e1) (rule mod_base [OF z(2)])
  have dm: "c div 4096 = x" "c div 64 mod 64 = y" "c mod 64 = z"
    using d1 d3 mod_base [OF y(2), of x] by (simp_all only: d2)
  have "of_nat (0xE0 + x) = b0" "of_nat (0x80 + y) = b1" "of_nat (0x80 + z) = b2"
    using x(1) y(1) z(1) by (simp_all only: byte_of_unat)
  then show ?thesis
    unfolding x_def [symmetric] y_def [symmetric] z_def [symmetric] c_def [symmetric]
      utf8_encode_cp_def
    by (simp only: c dm if_True if_False)
qed

lemma utf8_encode_cp_4:
  assumes "0xF0 \<le> unat b0" "unat b0 \<le> 0xF4"
    and "in_range (second_lo (unat b0)) (second_hi (unat b0)) b1" "is_cont b2" "is_cont b3"
  shows "utf8_encode_cp ((unat b0 - 0xF0) * 262144 + (unat b1 - 0x80) * 4096
                         + (unat b2 - 0x80) * 64 + (unat b3 - 0x80))
         = Some [b0, b1, b2, b3]"
proof -
  define x where "x = unat b0 - 0xF0"
  define y where "y = unat b1 - 0x80"
  define z where "z = unat b2 - 0x80"
  define w where "w = unat b3 - 0x80"
  define c where "c = x * 262144 + y * 4096 + z * 64 + w"
  have x: "unat b0 = 0xF0 + x" "x < 5"
    using assms(1,2) by (simp_all add: x_def)
  have y: "unat b1 = 0x80 + y" "y < 64"
    using assms(3) by (auto simp: y_def in_range_def second_lo_def second_hi_def split: if_splits)
  have z: "unat b2 = 0x80 + z" "z < 64"
    using assms(4) by (auto simp: z_def is_cont_def in_range_def)
  have w: "unat b3 = 0x80 + w" "w < 64"
    using assms(5) by (auto simp: w_def is_cont_def in_range_def)
  have lo: "x = 0 \<Longrightarrow> 16 \<le> y"
    using assms(3) x(1) y(1) by (simp add: in_range_def second_lo_def)
  have hi: "x = 4 \<Longrightarrow> y < 16"
    using assms(3) x(1) y(1) by (simp add: in_range_def second_hi_def)
  have lower: "0x10000 \<le> c"
    using lo unfolding c_def by (cases "x = 0") simp_all
  have upper: "c < 0x110000"
  proof -
    consider "x < 4" | "x = 4" using x(2) by linarith
    then show ?thesis
      using y(2) z(2) w(2) hi unfolding c_def by cases simp_all
  qed
  have c: "\<not> c < 0x80" "\<not> c < 0x800" "\<not> c < 0x10000" "c < 0x110000"
    using lower upper by simp_all
  have e1: "c = ((x * 64 + y) * 64 + z) * 64 + w"
    and e2: "c = (x * 64 + y) * 4096 + (z * 64 + w)"
    and e3: "c = x * 262144 + (y * 4096 + z * 64 + w)"
    unfolding c_def by simp_all
  have zw: "z * 64 + w < 4096" and yzw: "y * 4096 + z * 64 + w < 262144"
    using y(2) z(2) w(2) by simp_all
  have d1: "c div 262144 = x"
    by (subst e3) (rule div_base [OF yzw])
  have d2: "c div 4096 = x * 64 + y"
    by (subst e2) (rule div_base [OF zw])
  have d3: "c div 64 = (x * 64 + y) * 64 + z"
    by (subst e1) (rule div_base [OF w(2)])
  have d4: "c mod 64 = w"
    by (subst e1) (rule mod_base [OF w(2)])
  have dm: "c div 262144 = x" "c div 4096 mod 64 = y" "c div 64 mod 64 = z" "c mod 64 = w"
    using d1 d4 mod_base [OF y(2), of x] mod_base [OF z(2), of "x * 64 + y"]
    by (simp_all only: d2 d3)
  have "of_nat (0xF0 + x) = b0" "of_nat (0x80 + y) = b1" "of_nat (0x80 + z) = b2"
    "of_nat (0x80 + w) = b3"
    using x(1) y(1) z(1) w(1) by (simp_all only: byte_of_unat)
  then show ?thesis
    unfolding x_def [symmetric] y_def [symmetric] z_def [symmetric] w_def [symmetric]
      c_def [symmetric] utf8_encode_cp_def
    by (simp only: c dm if_True if_False)
qed

lemma utf8_next_encode:
  assumes "utf8_next bs = Some (c, r)"
  shows "\<exists>p. utf8_encode_cp c = Some p \<and> bs = p @ r"
proof (cases bs)
  case Nil
  with assms show ?thesis by (simp add: utf8_next_def)
next
  case (Cons b0 r0)
  consider (one) "unat b0 < 0x80"
    | (two) "0xC2 \<le> unat b0" "unat b0 \<le> 0xDF"
    | (three) "0xE0 \<le> unat b0" "unat b0 \<le> 0xEF"
    | (four) "0xF0 \<le> unat b0" "unat b0 \<le> 0xF4"
    | (bad) "0x80 \<le> unat b0" "unat b0 < 0xC2 \<or> 0xF4 < unat b0"
    by linarith
  then show ?thesis
  proof cases
    case one
    from assms have "c = unat b0" "r0 = r"
      unfolding Cons utf8_next_1 [OF one] by simp_all
    with Cons utf8_encode_cp_1 [OF one] show ?thesis by simp
  next
    case two
    from assms obtain b1 where *: "r0 = b1 # r" "is_cont b1"
      "c = (unat b0 - 0xC0) * 64 + (unat b1 - 0x80)"
      unfolding Cons utf8_next_2 [OF two] by (auto split: list.splits if_split_asm)
    show ?thesis
      using utf8_encode_cp_2 [OF two *(2)] *(1,3) Cons by simp
  next
    case three
    from assms obtain b1 b2 where *: "r0 = b1 # b2 # r"
      "in_range (second_lo (unat b0)) (second_hi (unat b0)) b1" "is_cont b2"
      "c = (unat b0 - 0xE0) * 4096 + (unat b1 - 0x80) * 64 + (unat b2 - 0x80)"
      unfolding Cons utf8_next_3 [OF three] by (auto split: list.splits if_split_asm)
    show ?thesis
      using utf8_encode_cp_3 [OF three *(2,3)] *(1,4) Cons by simp
  next
    case four
    from assms obtain b1 b2 b3 where *: "r0 = b1 # b2 # b3 # r"
      "in_range (second_lo (unat b0)) (second_hi (unat b0)) b1" "is_cont b2" "is_cont b3"
      "c = (unat b0 - 0xF0) * 262144 + (unat b1 - 0x80) * 4096
           + (unat b2 - 0x80) * 64 + (unat b3 - 0x80)"
      unfolding Cons utf8_next_4 [OF four] by (auto split: list.splits if_split_asm)
    show ?thesis
      using utf8_encode_cp_4 [OF four *(2,3,4)] *(1,5) Cons by simp
  next
    case bad
    with assms show ?thesis
      unfolding Cons by (simp add: utf8_next_bad)
  qed
qed

text \<open>Strict decoding loses nothing: what decodes, encodes back to the same bytes.\<close>

lemma utf8_decode_encode:
  "utf8_decode bs = Some cs \<Longrightarrow> utf8_encode cs = Some bs"
proof (induction bs arbitrary: cs rule: utf8_decode.induct)
  case (1 bs)
  show ?case
  proof (cases "bs = []")
    case True
    with "1.prems" show ?thesis by (simp add: utf8_decode.simps)
  next
    case False
    with "1.prems" obtain c r cs' where n: "utf8_next bs = Some (c, r)"
      and d: "utf8_decode r = Some cs'" and cs: "cs = c # cs'"
      by (subst (asm) utf8_decode.simps) (auto split: option.splits)
    from utf8_next_encode [OF n] obtain p where p: "utf8_encode_cp c = Some p" "bs = p @ r"
      by blast
    from "1.IH" [OF False n refl d] have "utf8_encode cs' = Some r" .
    with p cs show ?thesis by simp
  qed
qed

lemma utf8_decode_feed_ok: "utf8_decode feed_ok_bytes = Some (str_lit ''<feed>ok</feed>'')"
  by (simp add: feed_ok_bytes_def str_lit_def utf8_decode.simps utf8_next_def)


section \<open>Lemmas on the handlers\<close>

lemma upstream_request_eq:
  "upstream_request =
     \<lparr>full_url = str_lit ''https://publicalert.pagasa.dost.gov.ph/feeds/'',
      data = None,
      headers = [(str_lit ''User-Agent'',
                  str_lit ''Mozilla/5.0 (Windows NT 10.0; Win64; x64) AppleWebKit/537.36'')]\<rparr>"
  by (simp add: upstream_request_def Request_def add_header_def)

text \<open>The \<^verbatim>\<open>try\<close> block, by the outcome of its one call of \<^verbatim>\<open>urlopen\<close>.\<close>

lemma pagasa_proxy_try_eq:
  "pagasa_proxy_try net s =
     (case net upstream_request of
        Inl e \<Rightarrow> Inl e
      | Inr response \<Rightarrow>
         (case close_result response of
            Some e \<Rightarrow> Inl e
          | None \<Rightarrow>
             (case read_decode response of
                Inl e \<Rightarrow> Inl e
              | Inr xml_data \<Rightarrow>
                 Inr (PyTuple [PyStr xml_data, PyInt 200,
                               PyDict [(str_lit ''Content-Type'',
                                        str_lit ''application/atom+xml'')]]))),
      s\<lparr>sent := sent s @ [upstream_request]\<rparr>)"
  by (simp add: pagasa_proxy_try_def Let_def urlopen_def upstream_request_def
      split: sum.splits option.splits)

lemma pagasa_proxy_try_sent:
  "sent (snd (pagasa_proxy_try net s)) = sent s @ [upstream_request]"
  by (simp add: pagasa_proxy_try_eq)

lemma pagasa_proxy_try_frame:
  "doc (snd (pagasa_proxy_try net s)) = doc s" "stdout (snd (pagasa_proxy_try net s)) = stdout s"
  by (simp_all add: pagasa_proxy_try_eq)

lemma pagasa_proxy_try_ok:
  assumes "net upstream_request = Inr response" "close_result response = None"
    and "read_result response = Inr raw" "utf8_decode raw = Some xml_data"
  shows "fst (pagasa_proxy_try net s) =
           Inr (PyTuple [PyStr xml_data, PyInt 200,
                         PyDict [(str_lit ''Content-Type'', str_lit ''application/atom+xml'')]])"
  using assms by (simp add: pagasa_proxy_try_eq read_decode_def)


lemma pagasa_proxy_try_shape:
  "(\<exists>e. fst (pagasa_proxy_try net s) = Inl e)
   \<or> (\<exists>xml_data. fst (pagasa_proxy_try net s) =
         Inr (PyTuple [PyStr xml_data, PyInt 200,
                       PyDict [(str_lit ''Content-Type'', str_lit ''application/atom+xml'')]]))"
  by (simp add: pagasa_proxy_try_eq split: sum.splits option.splits)

text \<open>The handler, by the outcome of the \<^verbatim>\<open>try\<close> block and of the \<^verbatim>\<open>print\<close>.\<close>

lemma pagasa_proxy_caught:
  assumes "fst (pagasa_proxy_try net s) = Inl e"
    and "con (FString (str_lit ''Proxy error: '') e) = None"
  shows "fst (pagasa_proxy request net con s) =
           Inr (PyTuple [PyDict [(str_lit ''error'', str_lit ''Failed to fetch PAGASA data'')],
                         PyInt 500])"
    and "stdout (snd (pagasa_proxy request net con s)) =
           stdout s @ [FString (str_lit ''Proxy error: '') e]"
  using assms pagasa_proxy_try_frame(2) [of net s]
  by (auto simp: pagasa_proxy_def print_def split: prod.splits sum.splits)

lemma pagasa_proxy_print_raises:
  assumes "fst (pagasa_proxy_try net s) = Inl e"
    and "con (FString (str_lit ''Proxy error: '') e) = Some e'"
  shows "fst (pagasa_proxy request net con s) = Inl e'"
    and "stdout (snd (pagasa_proxy request net con s)) = stdout s"
  using assms pagasa_proxy_try_frame(2) [of net s]
  by (auto simp: pagasa_proxy_def print_def split: prod.splits sum.splits)

lemma pagasa_proxy_returned:
  assumes "fst (pagasa_proxy_try net s) = Inr v"
  shows "fst (pagasa_proxy request net con s) = Inr v"
  using assms by (auto simp: pagasa_proxy_def split: prod.splits sum.splits)

lemma pagasa_proxy_sent:
  "sent (snd (pagasa_proxy request net con s)) = sent s @ [upstream_request]"
  using pagasa_proxy_try_sent [of net s]
  by (auto simp: pagasa_proxy_def print_def split: prod.splits sum.splits option.splits)

lemma pagasa_proxy_doc:
  "doc (snd (pagasa_proxy request net con s)) = doc s"
  using pagasa_proxy_try_frame(1) [of net s]
  by (auto simp: pagasa_proxy_def print_def split: prod.splits sum.splits option.splits)

section \<open>The claims\<close>

text \<open>
  C1. Whenever the upstream fetch succeeds, that is \<^verbatim>\<open>urlopen\<close> returns a response,
  \<^verbatim>\<open>read\<close> returns its body, the body decodes and the response closes, the proxy
  handler returns status 200, the header \<^verbatim>\<open>Content-Type: application/atom+xml\<close> and, as
  body, the decoded text, whose UTF-8 encoding is the upstream body byte for byte: nothing
  is transformed on the way. Nothing is printed on this path, so standard output has no
  part in it.
\<close>

theorem proxy_relays_upstream_body:
  assumes "net upstream_request = Inr response"
    and "read_result response = Inr raw"
    and "close_result response = None"
    and "utf8_decode raw = Some xml_data"
  shows "fst (pagasa_proxy request net con s) =
           Inr (PyTuple [PyStr xml_data, PyInt 200,
                         PyDict [(str_lit ''Content-Type'', str_lit ''application/atom+xml'')]])
         \<and> utf8_encode xml_data = Some raw"
proof
  have "fst (pagasa_proxy_try net s) =
          Inr (PyTuple [PyStr xml_data, PyInt 200,
                        PyDict [(str_lit ''Content-Type'', str_lit ''application/atom+xml'')]])"
    using assms by (simp add: pagasa_proxy_try_ok)
  then show "fst (pagasa_proxy request net con s) =
          Inr (PyTuple [PyStr xml_data, PyInt 200,
                        PyDict [(str_lit ''Content-Type'', str_lit ''application/atom+xml'')]])"
    by (rule pagasa_proxy_returned)
  show "utf8_encode xml_data = Some raw"
    using assms(4) by (rule utf8_decode_encode)
qed

text \<open>
  The spec's example: the upstream body \<^verbatim>\<open><feed>ok</feed>\<close> is relayed as it is, here with a
  standard output that is broken.
\<close>

theorem proxy_relays_upstream_body_witness:
  "feed_ok_network upstream_request = Inr feed_ok_response
   \<and> read_result feed_ok_response = Inr feed_ok_bytes
   \<and> close_result feed_ok_response = None
   \<and> utf8_decode feed_ok_bytes = Some (str_lit ''<feed>ok</feed>'')
   \<and> fst (pagasa_proxy plain_request feed_ok_network broken_console app_module) =
        Inr (PyTuple [PyStr (str_lit ''<feed>ok</feed>''), PyInt 200,
                      PyDict [(str_lit ''Content-Type'', str_lit ''application/atom+xml'')]])
   \<and> utf8_encode (str_lit ''<feed>ok</feed>'') = Some feed_ok_bytes"
proof -
  have h: "feed_ok_network upstream_request = Inr feed_ok_response"
    "read_result feed_ok_response = Inr feed_ok_bytes"
    "close_result feed_ok_response = None"
    by (simp_all add: feed_ok_network_def feed_ok_response_def)
  show ?thesis
    using h utf8_decode_feed_ok
      proxy_relays_upstream_body [where net = feed_ok_network and response = feed_ok_response
        and raw = feed_ok_bytes and xml_data = "str_lit ''<feed>ok</feed>''"
        and request = plain_request and con = broken_console and s = app_module]
    by simp
qed




text \<open>
  C3. Every call of the proxy handler issues exactly one outbound request and no second
  one: the list of requests sent grows by one element, a GET (a request without data) to
  the fixed URL of the feed with the fixed desktop-browser \<^verbatim>\<open>User-Agent\<close> as its only header.
\<close>

theorem proxy_one_outbound_get:
  "sent (snd (pagasa_proxy request net con s)) = sent s @ [upstream_request]
   \<and> full_url upstream_request = str_lit ''https://publicalert.pagasa.dost.gov.ph/feeds/''
   \<and> get_method upstream_request = str_lit ''GET''
   \<and> headers upstream_request =
       [(str_lit ''User-Agent'',
         str_lit ''Mozilla/5.0 (Windows NT 10.0; Win64; x64) AppleWebKit/537.36'')]"
  by (simp add: pagasa_proxy_sent get_method_def) (simp add: upstream_request_eq)




text \<open>
  C5. For every request, whatever its headers and query string, \<^verbatim>\<open>main_page\<close> returns the
  same document, the literal tree of the source, in which nothing is computed from the
  request or the state; served, it has status 200 and content type \<^verbatim>\<open>text/html\<close>.
\<close>

theorem main_page_fixed_document:
  "fst (main_page request s) = Inr (PyDoc (Syqlorix [main_page_head, main_page_body]))
   \<and> status (respond (PyDoc (Syqlorix [main_page_head, main_page_body]))) = 200
   \<and> reply_headers (respond (PyDoc (Syqlorix [main_page_head, main_page_body]))) =
       [(str_lit ''Content-Type'', str_lit ''text/html'')]
   \<and> reply_body (respond (PyDoc (Syqlorix [main_page_head, main_page_body]))) =
       PyDoc (Syqlorix [main_page_head, main_page_body])"
  by (simp add: main_page_def respond_def)

text \<open>
  C6. The route table that the module builds when it is loaded has exactly two entries: the
  root path bound to \<^verbatim>\<open>main_page\<close> and the proxy path bound to \<^verbatim>\<open>pagasa_proxy\<close>, two
  different paths. (The proxy rule of \<^verbatim>\<open>doc.proxy\<close>, for the same proxy path, is kept apart
  from it.) No handler changes \<^verbatim>\<open>doc\<close>: after any call of a registered handler, in any
  state, it is what it was before.
\<close>

theorem route_table_two_entries:
  "routes (doc app_module) =
     [(str_lit ''/'', Main_page), (str_lit ''/api/pagasa-proxy'', Pagasa_proxy)]
   \<and> length (routes (doc app_module)) = 2
   \<and> str_lit ''/'' \<noteq> str_lit ''/api/pagasa-proxy''
   \<and> proxies (doc app_module) =
       [(str_lit ''/api/pagasa-proxy'', str_lit ''https://publicalert.pagasa.dost.gov.ph/feeds'')]
   \<and> doc (snd (call_handler h request net con s)) = doc s"
proof -
  have "doc (snd (call_handler h request net con s)) = doc s"
    by (cases h) (simp_all add: main_page_def pagasa_proxy_doc)
  moreover have "str_lit ''/'' \<noteq> str_lit ''/api/pagasa-proxy''"
    by (simp add: str_lit_def)
  ultimately show ?thesis
    by (simp add: app_module_def route_def proxy_def Syqlorix_def)
qed

text \<open>
  C7. The outcome of the proxy handler does not depend on the inbound request: two calls,
  on any two requests and in any two states, whose fetches end the same way, with the
  same standard output, end the same way: they return the same value or raise the same
  exception. Both send the same outbound request, in which nothing of the inbound request
  appears.
\<close>

theorem proxy_ignores_request:
  assumes "net1 upstream_request = net2 upstream_request"
  shows "fst (pagasa_proxy request1 net1 con s1) = fst (pagasa_proxy request2 net2 con s2)
         \<and> sent (snd (pagasa_proxy request1 net1 con s1)) = sent s1 @ [upstream_request]
         \<and> sent (snd (pagasa_proxy request2 net2 con s2)) = sent s2 @ [upstream_request]"
proof -
  have "fst (pagasa_proxy request1 net1 con s1) = fst (pagasa_proxy request2 net2 con s2)"
    using assms
    by (simp add: pagasa_proxy_def pagasa_proxy_try_eq print_def
        split: sum.splits option.splits)
  then show ?thesis
    by (simp add: pagasa_proxy_sent)
qed

text \<open>A request carrying a URL of the caller's is answered as the plain one is.\<close>

theorem proxy_ignores_request_witness:
  "feed_ok_network upstream_request = pinned_network upstream_request
   \<and> plain_request \<noteq> crafted_request
   \<and> fst (pagasa_proxy plain_request feed_ok_network working_console app_module) =
       fst (pagasa_proxy crafted_request pinned_network working_console app_module)
   \<and> sent (snd (pagasa_proxy crafted_request pinned_network working_console app_module)) =
       [upstream_request]"
proof -
  have h: "feed_ok_network upstream_request = pinned_network upstream_request"
    by (simp add: feed_ok_network_def pinned_network_def)
  have d: "plain_request \<noteq> crafted_request"
    by (simp add: plain_request_def crafted_request_def)
  have "sent app_module = []"
    by (simp add: app_module_def)
  with d h show ?thesis
    using proxy_ignores_request [where ?net1.0 = feed_ok_network and ?net2.0 = pinned_network
        and ?request1.0 = plain_request and ?s1.0 = app_module
        and ?request2.0 = crafted_request and ?s2.0 = app_module
        and con = working_console]
    by simp
qed

text \<open>
  C8. \<^verbatim>\<open>main_page\<close> cannot fail: for every request and in every state it returns a
  document, raises nothing, and leaves the state as it was. Its body is one literal
  expression, without a branch and without a use of its argument.
\<close>

theorem main_page_cannot_fail:
  "(\<exists>d. fst (main_page request s) = Inr (PyDoc d)) \<and> snd (main_page request s) = s"
  by (simp add: main_page_def)




text \<open>
  C10. When the \<^verbatim>\<open>try\<close> block raises, what the proxy handler returns is a tuple of two
  components, a body and the status 500, with no headers component; when it does not, the
  handler returns a tuple of three components, a body, the status 200 and a headers
  dictionary that holds \<^verbatim>\<open>Content-Type\<close>. Only the success reply declares a content type.
\<close>

theorem proxy_error_has_no_headers:
  "(\<forall>e v. fst (pagasa_proxy_try net s) = Inl e \<longrightarrow>
      fst (pagasa_proxy request net con s) = Inr v \<longrightarrow>
      (\<exists>body. v = PyTuple [body, PyInt 500]))
   \<and> (\<forall>v. fst (pagasa_proxy_try net s) = Inr v \<longrightarrow>
      (\<exists>body. fst (pagasa_proxy request net con s) =
         Inr (PyTuple [body, PyInt 200,
                       PyDict [(str_lit ''Content-Type'', str_lit ''application/atom+xml'')]])))"
proof (intro conjI allI impI)
  fix e v
  assume e: "fst (pagasa_proxy_try net s) = Inl e"
    and v: "fst (pagasa_proxy request net con s) = Inr v"
  show "\<exists>body. v = PyTuple [body, PyInt 500]"
  proof (cases "con (FString (str_lit ''Proxy error: '') e)")
    case None
    with e have "fst (pagasa_proxy request net con s) =
        Inr (PyTuple [PyDict [(str_lit ''error'', str_lit ''Failed to fetch PAGASA data'')],
                      PyInt 500])"
      by (rule pagasa_proxy_caught(1))
    with v have "v = PyTuple [PyDict [(str_lit ''error'',
                                       str_lit ''Failed to fetch PAGASA data'')], PyInt 500]"
      by simp
    then show ?thesis by blast
  next
    case (Some e')
    with e have "fst (pagasa_proxy request net con s) = Inl e'"
      by (rule pagasa_proxy_print_raises(1))
    with v show ?thesis by simp
  qed
next
  fix v
  assume v: "fst (pagasa_proxy_try net s) = Inr v"
  with pagasa_proxy_try_shape [of net s] obtain xml_data where
    "v = PyTuple [PyStr xml_data, PyInt 200,
                  PyDict [(str_lit ''Content-Type'', str_lit ''application/atom+xml'')]]"
    by auto
  with pagasa_proxy_returned [OF v, of request con]
  show "\<exists>body. fst (pagasa_proxy request net con s) =
         Inr (PyTuple [body, PyInt 200,
                       PyDict [(str_lit ''Content-Type'', str_lit ''application/atom+xml'')]])"
    by simp
qed

theorem proxy_error_has_no_headers_witness:
  "fst (pagasa_proxy_try unreachable_network app_module) =
     Inl (URLError (str_lit ''Name or service not known''))
   \<and> fst (pagasa_proxy plain_request unreachable_network working_console app_module) =
       Inr (PyTuple [PyDict [(str_lit ''error'', str_lit ''Failed to fetch PAGASA data'')],
                     PyInt 500])
   \<and> (\<exists>v. fst (pagasa_proxy_try feed_ok_network app_module) = Inr v)
   \<and> (\<exists>body. fst (pagasa_proxy plain_request feed_ok_network working_console app_module) =
         Inr (PyTuple [body, PyInt 200,
                       PyDict [(str_lit ''Content-Type'', str_lit ''application/atom+xml'')]]))"
proof -
  have a: "fst (pagasa_proxy_try unreachable_network app_module) =
     Inl (URLError (str_lit ''Name or service not known''))"
    by (simp add: pagasa_proxy_try_eq unreachable_network_def)
  have a': "fst (pagasa_proxy plain_request unreachable_network working_console app_module) =
       Inr (PyTuple [PyDict [(str_lit ''error'', str_lit ''Failed to fetch PAGASA data'')],
                     PyInt 500])"
    by (rule pagasa_proxy_caught(1) [OF a]) (simp add: working_console_def)
  have b: "fst (pagasa_proxy_try feed_ok_network app_module) =
     Inr (PyTuple [PyStr (str_lit ''<feed>ok</feed>''), PyInt 200,
                   PyDict [(str_lit ''Content-Type'', str_lit ''application/atom+xml'')]])"
    by (simp add: pagasa_proxy_try_eq feed_ok_network_def feed_ok_response_def read_decode_def
        utf8_decode_feed_ok)
  show ?thesis
    using a a' b
      proxy_error_has_no_headers [of unreachable_network app_module plain_request
        working_console]
      proxy_error_has_no_headers [of feed_ok_network app_module plain_request working_console]
    by simp
qed

end
